theory Spec2Isabelle
  imports Main "HOL-Library.Sublist" "HOL-Library.AList"
begin

section \<open>Python values used by the diagram generator\<close>

text \<open>
  The diagram generator of \<^verbatim>\<open>app.py\<close> builds SVG markup by string concatenation from
  tables that are written as dictionary literals inside each function. Strings are
  \<^typ>\<open>string\<close>, Python's unbounded integers are \<^typ>\<open>int\<close>, a dictionary is an
  association list in insertion order, and a failing subscript \<^verbatim>\<open>d[k]\<close> is the value
  \<open>Inl KeyError\<close>.
\<close>

datatype error = KeyError

type_synonym position = "int \<times> int"

type_synonym layout = "(string \<times> position list) list"

text \<open>\<^verbatim>\<open>d[k]\<close>: raises \<^verbatim>\<open>KeyError\<close> when the key is absent.\<close>

definition dict_getitem :: "('k \<times> 'v) list \<Rightarrow> 'k \<Rightarrow> error + 'v" where
  "dict_getitem d k = (case map_of d k of None \<Rightarrow> Inl KeyError | Some v \<Rightarrow> Inr v)"

text \<open>\<^verbatim>\<open>d.get(k, default)\<close>: never raises.\<close>

definition dict_get :: "('k \<times> 'v) list \<Rightarrow> 'k \<Rightarrow> 'v \<Rightarrow> 'v" where
  "dict_get d k dflt = (case map_of d k of None \<Rightarrow> dflt | Some v \<Rightarrow> v)"

text \<open>
  \<^verbatim>\<open>str(n)\<close> for an integer, as an f-string placeholder \<^verbatim>\<open>{n}\<close> formats it: decimal
  digits, most significant first, with a leading minus sign for a negative number.
\<close>

definition digit_char :: "nat \<Rightarrow> char" where
  "digit_char d = ''0123456789'' ! (d mod 10)"

function str_nat :: "nat \<Rightarrow> string" where
  "str_nat n = (if n < 10 then [digit_char n] else str_nat (n div 10) @ [digit_char (n mod 10)])"
  by pat_completeness auto
termination
  by (relation "measure (\<lambda>n. n)") auto

declare str_nat.simps [simp del]

definition str_int :: "int \<Rightarrow> string" where
  "str_int i = (if i < 0 then CHR ''-'' # str_nat (nat (- i)) else str_nat (nat i))"

section \<open>Field background\<close>

text \<open>
  \<^verbatim>\<open>generate_field_svg()\<close> returns one triple-quoted literal; \<open>field_lines\<close> is that
  literal cut before each of its line breaks.
\<close>

definition field_lines :: "string list" where
  \<open>field_lines =
     [''\<newline>    <rect x="0" y="0" width="400" height="250" fill="#2d5a27" />'',
      ''\<newline>    <line x1="0" y1="50" x2="400" y2="50" stroke="white" stroke-width="2" />'',
      ''\<newline>    <line x1="0" y1="100" x2="400" y2="100" stroke="white" stroke-width="2" />'',
      ''\<newline>    <line x1="0" y1="150" x2="400" y2="150" stroke="white" stroke-width="2" />'',
      ''\<newline>    <line x1="0" y1="200" x2="400" y2="200" stroke="white" stroke-width="2" />'',
      ''\<newline>    <line x1="200" y1="0" x2="200" y2="250" stroke="white" stroke-width="1" stroke-dasharray="5,5" />'',
      ''\<newline>    '']\<close>

definition generate_field_svg :: string where
  "generate_field_svg = concat field_lines"

section \<open>Offensive formation\<close>

text \<open>The \<^verbatim>\<open>positions\<close> dictionary of \<^verbatim>\<open>generate_offensive_formation_svg\<close>, in insertion order.\<close>

definition offensive_positions :: "(string \<times> position) list" where
  "offensive_positions =
     [(''C'', (200, 150)), (''LG'', (170, 150)), (''RG'', (230, 150)), (''LT'', (140, 150)),
      (''RT'', (260, 150)), (''QB'', (200, 175)), (''RB'', (200, 200)), (''WR1'', (50, 150)),
      (''WR2'', (350, 150)), (''TE'', (290, 150)), (''SLOT'', (100, 150))]"

definition circle_marker :: "string \<Rightarrow> int \<Rightarrow> int \<Rightarrow> string" where
  \<open>circle_marker fill x y =
     ''<circle cx="'' @ str_int x @ ''" cy="'' @ str_int y @ ''" r="10" fill="'' @ fill @
     ''" stroke="white" stroke-width="2" />''\<close>

definition square_marker :: "int \<Rightarrow> int \<Rightarrow> string" where
  \<open>square_marker x y =
     ''<rect x="'' @ str_int (x - 8) @ ''" y="'' @ str_int (y - 8) @
     ''" width="16" height="16" fill="#4169e1" stroke="white" stroke-width="2" />''\<close>

text \<open>The body of the loop over \<^verbatim>\<open>positions.items()\<close>: one \<^verbatim>\<open>if/elif\<close> chain on the label.\<close>

definition offensive_marker :: "string \<times> position \<Rightarrow> string" where
  "offensive_marker item =
     (case item of (pos, (x, y)) \<Rightarrow>
        if pos \<in> set [''WR1'', ''WR2'', ''SLOT''] then circle_marker ''#1e90ff'' x y
        else if pos = ''QB'' then circle_marker ''#ffd700'' x y
        else if pos = ''RB'' then circle_marker ''#32cd32'' x y
        else if pos = ''TE'' then circle_marker ''#1e90ff'' x y
        else square_marker x y)"

text \<open>
  \<^verbatim>\<open>generate_offensive_formation_svg(formation="pro")\<close>. The parameter is never read: the
  accumulator \<^verbatim>\<open>svg\<close> starts empty and each position appends its marker.
\<close>

definition generate_offensive_formation_svg :: "string \<Rightarrow> string" where
  "generate_offensive_formation_svg formation =
     foldl (\<lambda>svg item. svg @ offensive_marker item) [] offensive_positions"

section \<open>Defensive formation\<close>

text \<open>The dictionary literal \<^verbatim>\<open>base_positions\<close>: formation key, then role group, then positions.\<close>

definition layout_4_3 :: layout where
  "layout_4_3 =
     [(''DL'', [(155, 135), (185, 135), (215, 135), (245, 135)]),
      (''LB'', [(140, 110), (200, 105), (260, 110)]),
      (''CB'', [(50, 100), (350, 100)]),
      (''S'', [(150, 60), (250, 60)])]"

definition layout_3_4 :: layout where
  "layout_3_4 =
     [(''DL'', [(170, 135), (200, 135), (230, 135)]),
      (''LB'', [(120, 115), (165, 110), (235, 110), (280, 115)]),
      (''CB'', [(50, 100), (350, 100)]),
      (''S'', [(150, 60), (250, 60)])]"

definition layout_nickel :: layout where
  "layout_nickel =
     [(''DL'', [(155, 135), (185, 135), (215, 135), (245, 135)]),
      (''LB'', [(170, 110), (230, 110)]),
      (''CB'', [(50, 100), (350, 100)]),
      (''SLOT_CB'', [(100, 105)]),
      (''S'', [(150, 50), (250, 50)])]"

definition layout_dime :: layout where
  "layout_dime =
     [(''DL'', [(155, 135), (185, 135), (215, 135), (245, 135)]),
      (''LB'', [(200, 105)]),
      (''CB'', [(50, 100), (350, 100)]),
      (''SLOT_CB'', [(100, 105), (300, 105)]),
      (''S'', [(150, 45), (250, 45)])]"

definition base_positions_literal :: "(string \<times> layout) list" where
  "base_positions_literal =
     [(''4-3'', layout_4_3), (''3-4'', layout_3_4), (''nickel'', layout_nickel),
      (''dime'', layout_dime)]"

text \<open>
  Evaluating the literal allocates one dictionary object per formation; the outer
  dictionary holds references to them. \<^verbatim>\<open>positions = base_positions.get(...)\<close> is such a
  reference and \<^verbatim>\<open>positions["S"] = ...\<close> writes through it, so the objects live in an
  explicit heap: a list of layouts addressed by index.
\<close>

type_synonym ref = nat

type_synonym heap = "layout list"

definition alloc :: "heap \<Rightarrow> layout \<Rightarrow> heap \<times> ref" where
  "alloc h l = (h @ [l], length h)"

fun alloc_table :: "heap \<Rightarrow> (string \<times> layout) list \<Rightarrow> heap \<times> (string \<times> ref) list" where
  "alloc_table h [] = (h, [])"
| "alloc_table h ((k, l) # rest) =
     (case alloc h l of (h1, r) \<Rightarrow>
        case alloc_table h1 rest of (h2, d) \<Rightarrow> (h2, (k, r) # d))"

text \<open>\<^verbatim>\<open>d[k] = v\<close> on the dictionary object at address \<open>r\<close>.\<close>

definition heap_setitem :: "heap \<Rightarrow> ref \<Rightarrow> string \<Rightarrow> position list \<Rightarrow> heap" where
  "heap_setitem h r k v = h[r := AList.update k v (h ! r)]"

text \<open>The table as a reader sees it: every reference of the outer dictionary followed.\<close>

definition table_view :: "heap \<Rightarrow> (string \<times> ref) list \<Rightarrow> (string \<times> layout) list" where
  "table_view h d = map (\<lambda>(k, r). (k, h ! r)) d"

text \<open>The two key lists tested by the \<^verbatim>\<open>if/elif/elif\<close> chain of lines 109 to 114.\<close>

definition two_deep_coverages :: "string list" where
  "two_deep_coverages = [''cover_2'', ''cover_2_man'', ''tampa_2'', ''cover_4'', ''cover_6'']"

definition single_high_coverages :: "string list" where
  "single_high_coverages =
     [''cover_3'', ''cover_3_sky'', ''cover_3_cloud'', ''cover_1'', ''cover_1_robber'']"

text \<open>Lines 108 to 114: the chain overwrites the safeties of the dictionary \<^verbatim>\<open>positions\<close>.\<close>

definition adjust_safeties :: "string \<Rightarrow> ref \<Rightarrow> heap \<Rightarrow> heap" where
  "adjust_safeties coverage positions h =
     (if coverage \<in> set two_deep_coverages
      then heap_setitem h positions ''S'' [(120, 40), (280, 40)]
      else if coverage \<in> set single_high_coverages
      then heap_setitem h positions ''S'' [(200, 35), (250, 80)]
      else if coverage = ''cover_0''
      then heap_setitem h positions ''S'' [(180, 95), (220, 95)]
      else h)"

text \<open>
  Lines 76 to 114 of \<^verbatim>\<open>generate_defensive_formation_svg\<close>: build the table in a fresh heap,
  evaluate the default \<^verbatim>\<open>base_positions["4-3"]\<close> (a subscript, which may raise), look the
  formation up, adjust. The result is the heap, the outer dictionary and the reference
  \<^verbatim>\<open>positions\<close> as they are when drawing starts.
\<close>

definition lookup_and_adjust ::
  "string \<Rightarrow> string \<Rightarrow> error + (heap \<times> (string \<times> ref) list \<times> ref)" where
  "lookup_and_adjust formation coverage =
     (case alloc_table [] base_positions_literal of
        (h, base_positions) \<Rightarrow>
          (case dict_getitem base_positions ''4-3'' of
             Inl e \<Rightarrow> Inl e
           | Inr dflt \<Rightarrow>
               (let positions = dict_get base_positions formation dflt
                in Inr (adjust_safeties coverage positions h, (base_positions, positions)))))"

definition triangle_marker :: "string \<Rightarrow> int \<Rightarrow> int \<Rightarrow> string" where
  \<open>triangle_marker fill x y =
     ''<polygon points="'' @ str_int x @ '','' @ str_int (y - 10) @ '' '' @
     str_int (x - 10) @ '','' @ str_int (y + 8) @ '' '' @
     str_int (x + 10) @ '','' @ str_int (y + 8) @
     ''" fill="'' @ fill @ ''" stroke="white" stroke-width="2" />''\<close>

text \<open>One \<^verbatim>\<open>for x, y in positions.get(group, [])\<close> loop, appending to \<^verbatim>\<open>svg\<close>.\<close>

definition draw_group :: "string \<Rightarrow> string \<Rightarrow> position list \<Rightarrow> string" where
  "draw_group fill svg ps = foldl (\<lambda>svg (x, y). svg @ triangle_marker fill x y) svg ps"

text \<open>Lines 116 to 138: the five loops, in the source's order and with its colours.\<close>

definition draw_positions :: "layout \<Rightarrow> string" where
  "draw_positions positions =
     (let svg = [];
          svg = draw_group ''#dc143c'' svg (dict_get positions ''DL'' []);
          svg = draw_group ''#ff6347'' svg (dict_get positions ''LB'' []);
          svg = draw_group ''#ff4500'' svg (dict_get positions ''CB'' []);
          svg = draw_group ''#ff4500'' svg (dict_get positions ''SLOT_CB'' []);
          svg = draw_group ''#ff8c00'' svg (dict_get positions ''S'' [])
      in svg)"

definition generate_defensive_formation_svg :: "string \<Rightarrow> string \<Rightarrow> error + string" where
  "generate_defensive_formation_svg formation coverage =
     (case lookup_and_adjust formation coverage of
        Inl e \<Rightarrow> Inl e
      | Inr (h, base_positions, positions) \<Rightarrow> Inr (draw_positions (h ! positions)))"

section \<open>Coverage zones\<close>

record zone =
  zone_type :: string
  zone_x :: int
  zone_y :: int
  zone_w :: int
  zone_h :: int
  zone_color :: string

definition mk_zone :: "string \<Rightarrow> int \<Rightarrow> int \<Rightarrow> int \<Rightarrow> int \<Rightarrow> string \<Rightarrow> zone" where
  "mk_zone t x y w h c =
     \<lparr>zone_type = t, zone_x = x, zone_y = y, zone_w = w, zone_h = h, zone_color = c\<rparr>"

text \<open>The dictionary literal \<^verbatim>\<open>zones\<close> of \<^verbatim>\<open>generate_coverage_zones_svg\<close>.\<close>

definition zones :: "(string \<times> zone list) list" where
  "zones =
     [(''cover_0'', []),
      (''cover_1'',
        [mk_zone ''deep'' 50 0 300 60 ''rgba(255,165,0,0.3)'']),
      (''cover_2'',
        [mk_zone ''deep'' 50 0 150 50 ''rgba(255,165,0,0.3)'',
         mk_zone ''deep'' 200 0 150 50 ''rgba(255,165,0,0.3)'',
         mk_zone ''flat'' 0 50 80 60 ''rgba(255,69,0,0.3)'',
         mk_zone ''flat'' 320 50 80 60 ''rgba(255,69,0,0.3)'']),
      (''tampa_2'',
        [mk_zone ''deep'' 50 0 120 50 ''rgba(255,165,0,0.3)'',
         mk_zone ''deep'' 170 0 60 70 ''rgba(255,140,0,0.3)'',
         mk_zone ''deep'' 230 0 120 50 ''rgba(255,165,0,0.3)'']),
      (''cover_3'',
        [mk_zone ''deep'' 0 0 133 60 ''rgba(255,69,0,0.3)'',
         mk_zone ''deep'' 133 0 134 60 ''rgba(255,165,0,0.3)'',
         mk_zone ''deep'' 267 0 133 60 ''rgba(255,69,0,0.3)'']),
      (''cover_4'',
        [mk_zone ''deep'' 0 0 100 60 ''rgba(255,69,0,0.3)'',
         mk_zone ''deep'' 100 0 100 60 ''rgba(255,165,0,0.3)'',
         mk_zone ''deep'' 200 0 100 60 ''rgba(255,165,0,0.3)'',
         mk_zone ''deep'' 300 0 100 60 ''rgba(255,69,0,0.3)''])]"

definition zone_rect :: "zone \<Rightarrow> string" where
  \<open>zone_rect z =
     ''<rect x="'' @ str_int (zone_x z) @ ''" y="'' @ str_int (zone_y z) @
     ''" width="'' @ str_int (zone_w z) @ ''" height="'' @ str_int (zone_h z) @
     ''" fill="'' @ zone_color z @ ''" />''\<close>

definition generate_coverage_zones_svg :: "string \<Rightarrow> string" where
  "generate_coverage_zones_svg coverage =
     foldl (\<lambda>svg z. svg @ zone_rect z) [] (dict_get zones coverage [])"

section \<open>Soft spots\<close>

record spot =
  spot_x :: int
  spot_y :: int
  spot_label :: string

definition mk_spot :: "int \<Rightarrow> int \<Rightarrow> string \<Rightarrow> spot" where
  "mk_spot x y l = \<lparr>spot_x = x, spot_y = y, spot_label = l\<rparr>"

text \<open>The dictionary literal \<^verbatim>\<open>spots\<close> of \<^verbatim>\<open>generate_soft_spots_svg\<close>.\<close>

definition spots :: "(string \<times> spot list) list" where
  "spots =
     [(''cover_0'', [mk_spot 200 30 ''Deep - no help!'']),
      (''cover_1'', [mk_spot 100 80 ''Crossers'', mk_spot 300 80 ''Crossers'']),
      (''cover_2'',
        [mk_spot 200 25 ''Hole Shot'', mk_spot 70 15 ''Corner'', mk_spot 330 15 ''Corner'']),
      (''tampa_2'', [mk_spot 120 40 ''Seam'', mk_spot 280 40 ''Seam'']),
      (''cover_3'',
        [mk_spot 100 50 ''Seam'', mk_spot 300 50 ''Seam'', mk_spot 50 90 ''Flat'',
         mk_spot 350 90 ''Flat'']),
      (''cover_4'',
        [mk_spot 50 90 ''Flat'', mk_spot 350 90 ''Flat'', mk_spot 150 85 ''Curl'',
         mk_spot 250 85 ''Curl'']),
      (''cover_2_man'', [mk_spot 200 75 ''Crossers''])]"

text \<open>The f-string of the loop body, cut before each of its line breaks.\<close>

definition spot_lines :: "spot \<Rightarrow> string list" where
  \<open>spot_lines s =
     [''\<newline>        <circle cx="'' @ str_int (spot_x s) @ ''" cy="'' @ str_int (spot_y s) @
        ''" r="15" fill="rgba(0,255,0,0.4)" stroke="#00ff00" stroke-width="2">'',
      ''\<newline>            <animate attributeName="r" values="12;18;12" dur="1.5s" repeatCount="indefinite"/>'',
      ''\<newline>            <animate attributeName="opacity" values="0.6;0.3;0.6" dur="1.5s" repeatCount="indefinite"/>'',
      ''\<newline>        </circle>'',
      ''\<newline>        <text x="'' @ str_int (spot_x s) @ ''" y="'' @ str_int (spot_y s + 30) @
        ''" text-anchor="middle" fill="#00ff00" font-size="10" font-weight="bold">'' @
        spot_label s @ ''</text>'',
      ''\<newline>        '']\<close>

definition spot_markup :: "spot \<Rightarrow> string" where
  "spot_markup s = concat (spot_lines s)"

definition generate_soft_spots_svg :: "string \<Rightarrow> string" where
  "generate_soft_spots_svg coverage =
     foldl (\<lambda>svg s. svg @ spot_markup s) [] (dict_get spots coverage [])"

section \<open>Routes\<close>

record route =
  route_from :: position
  route_to :: position
  route_type :: string

definition mk_route :: "position \<Rightarrow> position \<Rightarrow> string \<Rightarrow> route" where
  "mk_route f t ty = \<lparr>route_from = f, route_to = t, route_type = ty\<rparr>"

text \<open>The dictionary literal \<^verbatim>\<open>routes\<close> of \<^verbatim>\<open>generate_route_svg\<close>.\<close>

definition routes :: "(string \<times> route list) list" where
  "routes =
     [(''four_verticals'',
        [mk_route (50, 150) (50, 20) ''go'', mk_route (100, 150) (130, 20) ''seam'',
         mk_route (290, 150) (270, 20) ''seam'', mk_route (350, 150) (350, 20) ''go'']),
      (''curl_flat'',
        [mk_route (50, 150) (70, 80) ''curl'', mk_route (100, 150) (50, 110) ''flat'']),
      (''smash'',
        [mk_route (50, 150) (60, 110) ''hitch'', mk_route (100, 150) (40, 40) ''corner'']),
      (''mesh'',
        [mk_route (50, 150) (250, 110) ''cross'', mk_route (350, 150) (150, 110) ''cross'']),
      (''levels'',
        [mk_route (50, 150) (200, 115) ''shallow'', mk_route (350, 150) (200, 80) ''dig'']),
      (''flood'',
        [mk_route (50, 150) (30, 20) ''clear'', mk_route (100, 150) (60, 50) ''corner'',
         mk_route (200, 200) (40, 120) ''flat'']),
      (''slant_flat'',
        [mk_route (50, 150) (120, 100) ''slant'', mk_route (100, 150) (50, 120) ''flat''])]"

text \<open>The f-string of the loop body, cut before each of its line breaks.\<close>

definition route_lines :: "route \<Rightarrow> string list" where
  \<open>route_lines r =
     (case route_from r of (x1, y1) \<Rightarrow>
      case route_to r of (x2, y2) \<Rightarrow>
        [''\<newline>        <line x1="'' @ str_int x1 @ ''" y1="'' @ str_int y1 @
           ''" x2="'' @ str_int x2 @ ''" y2="'' @ str_int y2 @
           ''" stroke="#00bfff" stroke-width="3" marker-end="url(#arrowhead)" />'',
         ''\<newline>        ''])\<close>

definition route_line :: "route \<Rightarrow> string" where
  "route_line r = concat (route_lines r)"

definition generate_route_svg :: "string \<Rightarrow> string" where
  "generate_route_svg concept =
     foldl (\<lambda>svg r. svg @ route_line r) [] (dict_get routes concept [])"

section \<open>The composer\<close>

text \<open>
  The constant pieces of the f-string of \<^verbatim>\<open>generate_play_diagram\<close>: the text before the
  first placeholder (cut before each line break), the text between two placeholders, and
  the text after the last one.
\<close>

definition diagram_head_lines :: "string list" where
  \<open>diagram_head_lines =
     [''\<newline>    <svg viewBox="0 0 400 250" xmlns="http://www.w3.org/2000/svg">'',
      ''\<newline>        <defs>'',
      ''\<newline>            <marker id="arrowhead" markerWidth="10" markerHeight="7" refX="9" refY="3.5" orient="auto">'',
      ''\<newline>                <polygon points="0 0, 10 3.5, 0 7" fill="#00bfff" />'',
      ''\<newline>            </marker>'',
      ''\<newline>        </defs>'',
      ''\<newline>        '']\<close>

definition diagram_head :: string where
  "diagram_head = concat diagram_head_lines"

definition layer_sep :: string where
  \<open>layer_sep = ''\<newline>        ''\<close>

definition diagram_foot :: string where
  \<open>diagram_foot = ''\<newline>    ''\<close>

text \<open>
  \<^verbatim>\<open>generate_play_diagram(formation, coverage, concept=None)\<close>. The placeholders are
  evaluated left to right; the offensive renderer is called without an argument, so with
  its default \<^verbatim>\<open>"pro"\<close>. \<^verbatim>\<open>if concept:\<close> is Python truthiness: \<^verbatim>\<open>None\<close> and the empty
  string skip the route layer.
\<close>

definition generate_play_diagram :: "string \<Rightarrow> string \<Rightarrow> string option \<Rightarrow> error + string" where
  "generate_play_diagram formation coverage concept =
     (let field = generate_field_svg;
          zone_layer = generate_coverage_zones_svg coverage;
          spot_layer = generate_soft_spots_svg coverage;
          offense = generate_offensive_formation_svg ''pro''
      in case generate_defensive_formation_svg formation coverage of
           Inl e \<Rightarrow> Inl e
         | Inr defense \<Rightarrow>
             let svg = diagram_head @ field @ layer_sep @ zone_layer @ layer_sep @ spot_layer @
                       layer_sep @ offense @ layer_sep @ defense @ diagram_foot;
                 svg = (case concept of
                          None \<Rightarrow> svg
                        | Some c \<Rightarrow> if c \<noteq> [] then svg @ generate_route_svg c else svg)
             in Inr (svg @ ''</svg>''))"

section \<open>Observations on the generator\<close>

text \<open>
  The layout a call draws from, the safeties it draws, and the table as it stands when
  drawing starts: projections of \<^const>\<open>lookup_and_adjust\<close>.
\<close>

definition drawn_layout :: "string \<Rightarrow> string \<Rightarrow> error + layout" where
  "drawn_layout formation coverage =
     (case lookup_and_adjust formation coverage of
        Inl e \<Rightarrow> Inl e
      | Inr (h, base_positions, positions) \<Rightarrow> Inr (h ! positions))"

definition safety_positions :: "string \<Rightarrow> string \<Rightarrow> error + position list" where
  "safety_positions formation coverage =
     (case drawn_layout formation coverage of
        Inl e \<Rightarrow> Inl e
      | Inr l \<Rightarrow> Inr (dict_get l ''S'' []))"

definition table_after :: "string \<Rightarrow> string \<Rightarrow> error + (string \<times> layout) list" where
  "table_after formation coverage =
     (case lookup_and_adjust formation coverage of
        Inl e \<Rightarrow> Inl e
      | Inr (h, base_positions, positions) \<Rightarrow> Inr (table_view h base_positions))"

text \<open>The lookup of line 106 read on the literal: the layout before any adjustment.\<close>

definition base_layout :: "string \<Rightarrow> layout" where
  "base_layout formation = dict_get base_positions_literal formation layout_4_3"

text \<open>The key under which the looked-up layout sits in the table.\<close>

definition resolved_key :: "string \<Rightarrow> string" where
  "resolved_key formation =
     (if formation \<in> set (map fst base_positions_literal) then formation else ''4-3'')"

text \<open>The value the chain of lines 109 to 114 assigns to the safeties, if any.\<close>

definition coverage_safeties :: "string \<Rightarrow> position list option" where
  "coverage_safeties coverage =
     (if coverage \<in> set two_deep_coverages then Some [(120, 40), (280, 40)]
      else if coverage \<in> set single_high_coverages then Some [(200, 35), (250, 80)]
      else if coverage = ''cover_0'' then Some [(180, 95), (220, 95)]
      else None)"

definition role_groups :: "string list" where
  "role_groups = [''DL'', ''LB'', ''CB'', ''SLOT_CB'', ''S'']"

text \<open>The route layer of a call: empty when \<^verbatim>\<open>if concept:\<close> is false.\<close>

definition route_layer :: "string option \<Rightarrow> string" where
  "route_layer concept = (case concept of None \<Rightarrow> [] | Some c \<Rightarrow> generate_route_svg c)"

text \<open>
  Counting elements in the markup: \<open>count_sub p s\<close> is the number of positions of \<open>s\<close>
  at which the pattern \<open>p\<close> occurs. A defensive marker is recognised by its fill
  attribute, one of the four colours of lines 118 to 136.
\<close>

fun count_sub :: "'a list \<Rightarrow> 'a list \<Rightarrow> nat" where
  "count_sub p [] = 0"
| "count_sub p (c # s) = (if prefix p (c # s) then 1 else 0) + count_sub p s"

definition fill_attr :: "string \<Rightarrow> string" where
  \<open>fill_attr colour = ''fill="'' @ colour @ ''"''\<close>

definition defensive_fills :: "string list" where
  "defensive_fills = [''#dc143c'', ''#ff6347'', ''#ff4500'', ''#ff8c00'']"

definition count_defensive_markers :: "string \<Rightarrow> nat" where
  "count_defensive_markers doc =
     sum_list (map (\<lambda>colour. count_sub (fill_attr colour) doc) defensive_fills)"

text \<open>A string is \<open>clean\<close> for a pattern when no occurrence can run into it from the left.\<close>

definition clean :: "'a list \<Rightarrow> 'a list \<Rightarrow> bool" where
  "clean p s \<longleftrightarrow> s = [] \<or> hd s \<notin> set (tl p)"

text \<open>
  The other elements are recognised as follows: a zone overlay by a fill that begins
  \<^verbatim>\<open>rgba(255,\<close> (every colour of the zones table does, and no fill of another element),
  a hotspot annotation by its \<^verbatim>\<open>text\<close> element, a route segment by its
  \<^verbatim>\<open>marker-end\<close> attribute.
\<close>

definition overlay_pattern :: string where
  \<open>overlay_pattern = ''fill="rgba(255,''\<close>

definition hotspot_pattern :: string where
  \<open>hotspot_pattern = ''<text ''\<close>

definition route_pattern :: string where
  \<open>route_pattern = ''marker-end=''\<close>

text \<open>
  A pattern is \<open>tag_safe\<close> when, after its first character, it has neither a line break
  nor an opening angle bracket: no occurrence of it runs across the start of an element or
  of a line.
\<close>

definition tag_safe :: "string \<Rightarrow> bool" where
  "tag_safe p \<longleftrightarrow> CHR 0x0A \<notin> set (tl p) \<and> CHR ''<'' \<notin> set (tl p)"

text \<open>What follows the coordinates in a defensive marker.\<close>

definition marker_tail :: "string \<Rightarrow> string" where
  \<open>marker_tail fill = ''" fill="'' @ fill @ ''" stroke="white" stroke-width="2" />''\<close>

text \<open>The markers of the five loops of lines 118 to 136, one list entry per iteration.\<close>

definition position_markers :: "layout \<Rightarrow> string list" where
  "position_markers positions =
     map (\<lambda>(x, y). triangle_marker ''#dc143c'' x y) (dict_get positions ''DL'' []) @
     map (\<lambda>(x, y). triangle_marker ''#ff6347'' x y) (dict_get positions ''LB'' []) @
     map (\<lambda>(x, y). triangle_marker ''#ff4500'' x y) (dict_get positions ''CB'' []) @
     map (\<lambda>(x, y). triangle_marker ''#ff4500'' x y) (dict_get positions ''SLOT_CB'' []) @
     map (\<lambda>(x, y). triangle_marker ''#ff8c00'' x y) (dict_get positions ''S'' [])"

section \<open>Basic facts\<close>

lemma foldl_append_concat:
  "foldl (\<lambda>acc x. acc @ f x) acc xs = acc @ concat (map f xs)"
  by (induction xs arbitrary: acc) simp_all

lemma dict_get_update:
  "dict_get (AList.update k v al) k' d = (if k' = k then v else dict_get al k' d)"
  by (simp add: dict_get_def update_conv')

lemma alloc_table_literal:
  "alloc_table [] base_positions_literal =
     ([layout_4_3, layout_3_4, layout_nickel, layout_dime],
      [(''4-3'', 0), (''3-4'', 1), (''nickel'', 2), (''dime'', 3)])"
  by (simp add: base_positions_literal_def alloc_def)

lemma adjust_safeties_eq:
  "adjust_safeties coverage r h =
     (case coverage_safeties coverage of None \<Rightarrow> h | Some v \<Rightarrow> heap_setitem h r ''S'' v)"
  by (simp add: adjust_safeties_def coverage_safeties_def)

lemma lookup_and_adjust_eq:
  "lookup_and_adjust formation coverage =
     (let h0 = [layout_4_3, layout_3_4, layout_nickel, layout_dime];
          bp = [(''4-3'', 0), (''3-4'', 1), (''nickel'', 2), (''dime'', 3)];
          r = dict_get bp formation 0
      in Inr (adjust_safeties coverage r h0, bp, r))"
  by (simp add: lookup_and_adjust_def alloc_table_literal dict_getitem_def Let_def)

lemma resolve_cases:
  obtains "formation = ''4-3''" | "formation = ''3-4''" | "formation = ''nickel''"
    | "formation = ''dime''"
    | "formation \<notin> set (map fst base_positions_literal)"
  by (auto simp: base_positions_literal_def)

lemma drawn_layout_eq:
  "drawn_layout formation coverage =
     Inr (case coverage_safeties coverage of
            None \<Rightarrow> base_layout formation
          | Some v \<Rightarrow> AList.update ''S'' v (base_layout formation))"
  by (cases formation rule: resolve_cases)
     (simp_all add: drawn_layout_def lookup_and_adjust_eq adjust_safeties_eq base_layout_def
        base_positions_literal_def dict_get_def heap_setitem_def split: option.splits)

lemma table_after_eq:
  "table_after formation coverage =
     Inr (case coverage_safeties coverage of
            None \<Rightarrow> base_positions_literal
          | Some v \<Rightarrow>
              AList.update (resolved_key formation)
                (AList.update ''S'' v (base_layout formation)) base_positions_literal)"
  by (cases formation rule: resolve_cases)
     (simp_all add: table_after_def lookup_and_adjust_eq adjust_safeties_eq base_layout_def
        base_positions_literal_def dict_get_def heap_setitem_def table_view_def resolved_key_def
        split: option.splits)

lemma generate_defensive_formation_svg_eq:
  "generate_defensive_formation_svg formation coverage =
     (case drawn_layout formation coverage of Inl e \<Rightarrow> Inl e | Inr l \<Rightarrow> Inr (draw_positions l))"
  by (simp add: generate_defensive_formation_svg_def drawn_layout_def split: sum.splits)

lemma play_diagram_layers:
  "generate_play_diagram formation coverage concept =
     Inr (diagram_head @ generate_field_svg @ layer_sep @
          generate_coverage_zones_svg coverage @ layer_sep @
          generate_soft_spots_svg coverage @ layer_sep @
          generate_offensive_formation_svg ''pro'' @ layer_sep @
          draw_positions (case coverage_safeties coverage of
                            None \<Rightarrow> base_layout formation
                          | Some v \<Rightarrow> AList.update ''S'' v (base_layout formation)) @
          diagram_foot @ route_layer concept @ ''</svg>'')"
proof -
  have empty_route: "generate_route_svg [] = []"
    by (simp add: generate_route_svg_def dict_get_def routes_def)
  show ?thesis
    by (cases concept)
       (simp_all add: generate_play_diagram_def generate_defensive_formation_svg_eq
          drawn_layout_eq route_layer_def empty_route Let_def)
qed

lemma base_layout_unknown:
  "formation \<notin> set (map fst base_positions_literal) \<Longrightarrow> base_layout formation = layout_4_3"
  by (simp add: base_layout_def dict_get_def map_of_eq_None_iff [THEN iffD2] image_iff)

lemma base_layout_default: "base_layout ''4-3'' = layout_4_3"
  by (simp add: base_layout_def dict_get_def base_positions_literal_def)

lemma dict_get_absent: "k \<notin> set (map fst d) \<Longrightarrow> dict_get d k dflt = dflt"
  by (simp add: dict_get_def map_of_eq_None_iff [THEN iffD2])

lemma safety_positions_eq:
  "safety_positions formation coverage =
     Inr (case coverage_safeties coverage of
            None \<Rightarrow> dict_get (base_layout formation) ''S'' []
          | Some v \<Rightarrow> v)"
  by (simp add: safety_positions_def drawn_layout_eq dict_get_update split: option.splits)

section \<open>Counting occurrences\<close>

lemma count_sub_skip:
  assumes "p \<noteq> []" and "hd p \<notin> set a"
  shows "count_sub p (a @ b) = count_sub p b"
  using assms
proof (induction a)
  case Nil
  then show ?case by simp
next
  case (Cons c a)
  then have "\<not> prefix p (c # a @ b)"
    by (cases p) auto
  with Cons show ?case by simp
qed

lemma prefix_append_clean:
  assumes "clean p b" and "a \<noteq> []"
  shows "prefix p (a @ b) \<longleftrightarrow> prefix p a"
proof
  assume pre: "prefix p (a @ b)"
  show "prefix p a"
  proof (rule ccontr)
    assume neg: "\<not> prefix p a"
    with pre obtain us where us: "p = a @ us" "prefix us b"
      by (auto simp: prefix_append)
    with neg have "us \<noteq> []"
      by auto
    with us have "b \<noteq> []" "hd us = hd b"
      by (auto simp: prefix_def)
    moreover from us \<open>us \<noteq> []\<close> \<open>a \<noteq> []\<close> have "hd us \<in> set (tl p)"
      by (cases a) auto
    ultimately show False
      using assms(1) by (simp add: clean_def)
  qed
next
  assume "prefix p a"
  then show "prefix p (a @ b)"
    by (rule prefix_prefix)
qed

lemma count_sub_append:
  assumes "clean p b"
  shows "count_sub p (a @ b) = count_sub p a + count_sub p b"
proof (induction a)
  case Nil
  show ?case by simp
next
  case (Cons c a)
  have "prefix p ((c # a) @ b) \<longleftrightarrow> prefix p (c # a)"
    using assms by (rule prefix_append_clean) simp
  with Cons show ?case by simp
qed

lemma clean_Nil: "clean p []"
  by (simp add: clean_def)

lemma clean_append: "clean p a \<Longrightarrow> clean p b \<Longrightarrow> clean p (a @ b)"
  by (auto simp: clean_def hd_append)

lemma clean_concat: "\<forall>s \<in> set ss. clean p s \<Longrightarrow> clean p (concat ss)"
  by (induction ss) (simp_all add: clean_Nil clean_append)

lemma count_sub_concat:
  assumes "\<forall>s \<in> set ss. clean p s"
  shows "count_sub p (concat ss) = sum_list (map (count_sub p) ss)"
  using assms
proof (induction ss)
  case Nil
  show ?case by simp
next
  case (Cons s ss)
  then have "clean p (concat ss)"
    by (simp add: clean_concat)
  then show ?case
    using Cons by (simp add: count_sub_append)
qed

lemma clean_newline: "tag_safe p \<Longrightarrow> clean p (CHR 0x0A # s)"
  by (simp add: tag_safe_def clean_def)

lemma clean_tag: "tag_safe p \<Longrightarrow> clean p (CHR ''<'' # s)"
  by (simp add: tag_safe_def clean_def)

section \<open>Digits\<close>

lemma digit_char_in: "digit_char d \<in> set ''0123456789''"
  unfolding digit_char_def by (rule nth_mem) simp

lemma str_nat_digits: "set (str_nat n) \<subseteq> set ''0123456789''"
proof (induction n rule: str_nat.induct)
  case (1 n)
  show ?case
  proof (cases "n < 10")
    case True
    have "str_nat n = [digit_char n]"
      using True by (subst str_nat.simps) simp
    then show ?thesis
      using digit_char_in [of n] by simp
  next
    case False
    have "str_nat n = str_nat (n div 10) @ [digit_char (n mod 10)]"
      using False by (subst str_nat.simps) simp
    then show ?thesis
      using 1 [OF False] digit_char_in [of "n mod 10"] by simp
  qed
qed

lemma str_int_chars: "set (str_int i) \<subseteq> set ''-0123456789''"
proof (cases "i < 0")
  case True
  then show ?thesis
    using str_nat_digits [of "nat (- i)"] by (simp add: str_int_def subset_insertI2)
next
  case False
  then show ?thesis
    using str_nat_digits [of "nat i"] by (simp add: str_int_def subset_insertI2)
qed

lemma letter_not_in_str_int:
  "c \<notin> set ''-0123456789'' \<Longrightarrow> c \<notin> set (str_int i)"
  using str_int_chars [of i] by blast

section \<open>Layers as lists of elements\<close>

lemma zones_concat:
  "generate_coverage_zones_svg coverage = concat (map zone_rect (dict_get zones coverage []))"
  by (simp add: generate_coverage_zones_svg_def foldl_append_concat)

lemma spots_concat:
  "generate_soft_spots_svg coverage = concat (map spot_markup (dict_get spots coverage []))"
  by (simp add: generate_soft_spots_svg_def foldl_append_concat)

lemma offense_concat:
  "generate_offensive_formation_svg formation = concat (map offensive_marker offensive_positions)"
  by (simp add: generate_offensive_formation_svg_def foldl_append_concat)

lemma routes_concat:
  "generate_route_svg concept = concat (map route_line (dict_get routes concept []))"
  by (simp add: generate_route_svg_def foldl_append_concat)

lemma draw_group_concat:
  "draw_group fill svg ps = svg @ concat (map (\<lambda>(x, y). triangle_marker fill x y) ps)"
proof -
  have "(\<lambda>svg (x, y). svg @ triangle_marker fill x y) =
      (\<lambda>svg p. svg @ (\<lambda>(x, y). triangle_marker fill x y) p)"
    by (simp add: fun_eq_iff split: prod.splits)
  then show ?thesis
    by (simp add: draw_group_def foldl_append_concat)
qed

lemma draw_positions_concat: "draw_positions positions = concat (position_markers positions)"
  by (simp add: draw_positions_def position_markers_def draw_group_concat Let_def)

section \<open>Every element starts a tag or a line\<close>

lemma clean_triangle: "tag_safe p \<Longrightarrow> clean p (triangle_marker fill x y)"
  by (simp add: triangle_marker_def clean_tag)

lemma clean_zone_rect: "tag_safe p \<Longrightarrow> clean p (zone_rect z)"
  by (simp add: zone_rect_def clean_tag)

lemma clean_offensive_marker: "tag_safe p \<Longrightarrow> clean p (offensive_marker item)"
  by (simp add: offensive_marker_def circle_marker_def square_marker_def clean_tag
        split: prod.splits)

lemma clean_spot_lines: "tag_safe p \<Longrightarrow> \<forall>l \<in> set (spot_lines s). clean p l"
  by (simp add: spot_lines_def clean_newline)

lemma clean_route_lines: "tag_safe p \<Longrightarrow> \<forall>l \<in> set (route_lines r). clean p l"
  by (cases "route_from r"; cases "route_to r") (simp add: route_lines_def clean_newline)

lemma clean_field_lines: "tag_safe p \<Longrightarrow> \<forall>l \<in> set field_lines. clean p l"
  by (simp add: field_lines_def clean_newline)

lemma clean_head_lines: "tag_safe p \<Longrightarrow> \<forall>l \<in> set diagram_head_lines. clean p l"
  by (simp add: diagram_head_lines_def clean_newline)


section \<open>Counts of layers\<close>

lemma count_sub_field:
  "tag_safe p \<Longrightarrow> count_sub p generate_field_svg = sum_list (map (count_sub p) field_lines)"
  unfolding generate_field_svg_def by (rule count_sub_concat) (rule clean_field_lines)

lemma count_sub_head:
  "tag_safe p \<Longrightarrow> count_sub p diagram_head = sum_list (map (count_sub p) diagram_head_lines)"
  unfolding diagram_head_def by (rule count_sub_concat) (rule clean_head_lines)

lemma count_sub_map_concat:
  assumes "\<forall>x \<in> set xs. clean p (f x)"
  shows "count_sub p (concat (map f xs)) = sum_list (map (\<lambda>x. count_sub p (f x)) xs)"
proof -
  from assms have "\<forall>s \<in> set (map f xs). clean p s"
    by simp
  then have "count_sub p (concat (map f xs)) = sum_list (map (count_sub p) (map f xs))"
    by (rule count_sub_concat)
  then show ?thesis
    by (simp add: o_def)
qed

lemma clean_spot_markup: "tag_safe p \<Longrightarrow> clean p (spot_markup s)"
  unfolding spot_markup_def by (rule clean_concat) (rule clean_spot_lines)

lemma clean_route_line: "tag_safe p \<Longrightarrow> clean p (route_line r)"
  unfolding route_line_def by (rule clean_concat) (rule clean_route_lines)

lemma count_sub_spot_markup:
  "tag_safe p \<Longrightarrow> count_sub p (spot_markup s) = sum_list (map (count_sub p) (spot_lines s))"
  unfolding spot_markup_def by (rule count_sub_concat) (rule clean_spot_lines)

lemma count_sub_route_line:
  "tag_safe p \<Longrightarrow> count_sub p (route_line r) = sum_list (map (count_sub p) (route_lines r))"
  unfolding route_line_def by (rule count_sub_concat) (rule clean_route_lines)

lemma count_sub_zones:
  "tag_safe p \<Longrightarrow>
   count_sub p (generate_coverage_zones_svg coverage) =
     sum_list (map (\<lambda>z. count_sub p (zone_rect z)) (dict_get zones coverage []))"
  unfolding zones_concat by (rule count_sub_map_concat) (simp add: clean_zone_rect)

lemma count_sub_spots:
  "tag_safe p \<Longrightarrow>
   count_sub p (generate_soft_spots_svg coverage) =
     sum_list (map (\<lambda>s. sum_list (map (count_sub p) (spot_lines s))) (dict_get spots coverage []))"
  unfolding spots_concat
  by (subst count_sub_map_concat) (simp_all add: clean_spot_markup count_sub_spot_markup)

lemma count_sub_offense:
  "tag_safe p \<Longrightarrow>
   count_sub p (generate_offensive_formation_svg formation) =
     sum_list (map (\<lambda>item. count_sub p (offensive_marker item)) offensive_positions)"
  unfolding offense_concat by (rule count_sub_map_concat) (simp add: clean_offensive_marker)

lemma count_sub_routes:
  "tag_safe p \<Longrightarrow>
   count_sub p (generate_route_svg concept) =
     sum_list (map (\<lambda>r. sum_list (map (count_sub p) (route_lines r))) (dict_get routes concept []))"
  unfolding routes_concat
  by (subst count_sub_map_concat) (simp_all add: clean_route_line count_sub_route_line)

lemma clean_position_markers: "tag_safe p \<Longrightarrow> \<forall>m \<in> set (position_markers l). clean p m"
  by (auto simp: position_markers_def clean_triangle)

lemma count_sub_defense:
  "tag_safe p \<Longrightarrow>
   count_sub p (draw_positions l) = sum_list (map (count_sub p) (position_markers l))"
  unfolding draw_positions_concat by (rule count_sub_concat) (rule clean_position_markers)

lemma clean_zones: "tag_safe p \<Longrightarrow> clean p (generate_coverage_zones_svg coverage)"
  unfolding zones_concat by (rule clean_concat) (simp add: clean_zone_rect)

lemma clean_spots: "tag_safe p \<Longrightarrow> clean p (generate_soft_spots_svg coverage)"
  unfolding spots_concat by (rule clean_concat) (simp add: clean_spot_markup)

lemma clean_offense: "tag_safe p \<Longrightarrow> clean p (generate_offensive_formation_svg formation)"
  unfolding offense_concat by (rule clean_concat) (simp add: clean_offensive_marker)

lemma clean_defense: "tag_safe p \<Longrightarrow> clean p (draw_positions l)"
  unfolding draw_positions_concat by (rule clean_concat) (rule clean_position_markers)

lemma clean_routes: "tag_safe p \<Longrightarrow> clean p (generate_route_svg concept)"
  unfolding routes_concat by (rule clean_concat) (simp add: clean_route_line)

lemma clean_route_layer: "tag_safe p \<Longrightarrow> clean p (route_layer concept)"
  by (cases concept) (simp_all add: route_layer_def clean_Nil clean_routes)

lemma clean_field: "tag_safe p \<Longrightarrow> clean p generate_field_svg"
  unfolding generate_field_svg_def by (rule clean_concat) (rule clean_field_lines)

lemma clean_head: "tag_safe p \<Longrightarrow> clean p diagram_head"
  unfolding diagram_head_def by (rule clean_concat) (rule clean_head_lines)

text \<open>The count of a pattern in a diagram is the sum of its counts in the layers.\<close>

lemma count_sub_layers:
  assumes p: "tag_safe p"
  shows "count_sub p
           (diagram_head @ generate_field_svg @ layer_sep @
            generate_coverage_zones_svg coverage @ layer_sep @
            generate_soft_spots_svg coverage @ layer_sep @
            generate_offensive_formation_svg formation @ layer_sep @
            draw_positions l @ diagram_foot @ route_layer concept @ ''</svg>'') =
         count_sub p diagram_head + count_sub p generate_field_svg +
         count_sub p (generate_coverage_zones_svg coverage) +
         count_sub p (generate_soft_spots_svg coverage) +
         count_sub p (generate_offensive_formation_svg formation) +
         count_sub p (draw_positions l) + count_sub p (route_layer concept) +
         (4 * count_sub p layer_sep + count_sub p diagram_foot + count_sub p ''</svg>'')"
proof -
  let ?pieces = "[diagram_head, generate_field_svg, layer_sep,
      generate_coverage_zones_svg coverage, layer_sep,
      generate_soft_spots_svg coverage, layer_sep,
      generate_offensive_formation_svg formation, layer_sep,
      draw_positions l, diagram_foot, route_layer concept, ''</svg>'']"
  have sep: "clean p layer_sep" "clean p diagram_foot" "clean p ''</svg>''"
    using p by (simp_all add: layer_sep_def diagram_foot_def clean_newline clean_tag)
  have "\<forall>s \<in> set ?pieces. clean p s"
    using p sep
    by (simp add: clean_head clean_field clean_zones clean_spots clean_offense clean_defense
          clean_route_layer)
  then have "count_sub p (concat ?pieces) = sum_list (map (count_sub p) ?pieces)"
    by (rule count_sub_concat)
  then show ?thesis
    by simp
qed

section \<open>The fill attributes of the defensive markers\<close>

lemma dict_get_elem:
  assumes "x \<in> set (dict_get d k [])"
  shows "\<exists>v \<in> set (map snd d). x \<in> set v"
proof (cases "map_of d k")
  case None
  with assms show ?thesis
    by (simp add: dict_get_def)
next
  case (Some v)
  then have "(k, v) \<in> set d"
    by (rule map_of_SomeD)
  with assms Some show ?thesis
    by (force simp: dict_get_def)
qed

lemma sum_list_zero: "\<forall>x \<in> set xs. f x = (0::nat) \<Longrightarrow> sum_list (map f xs) = 0"
  by (induction xs) simp_all

lemma fills_tag_safe: "\<forall>colour \<in> set defensive_fills. tag_safe (fill_attr colour)"
  by code_simp

lemma fills_head:
  "\<forall>colour \<in> set defensive_fills.
     sum_list (map (count_sub (fill_attr colour)) diagram_head_lines) = 0"
  by code_simp

lemma fills_field:
  "\<forall>colour \<in> set defensive_fills.
     sum_list (map (count_sub (fill_attr colour)) field_lines) = 0"
  by code_simp

lemma fills_offense:
  "\<forall>colour \<in> set defensive_fills.
     sum_list (map (\<lambda>item. count_sub (fill_attr colour) (offensive_marker item))
       offensive_positions) = 0"
  by code_simp

lemma fills_zones:
  "\<forall>colour \<in> set defensive_fills. \<forall>v \<in> set (map snd zones). \<forall>z \<in> set v.
     count_sub (fill_attr colour) (zone_rect z) = 0"
  by code_simp

lemma fills_spots:
  "\<forall>colour \<in> set defensive_fills. \<forall>v \<in> set (map snd spots). \<forall>s \<in> set v.
     sum_list (map (count_sub (fill_attr colour)) (spot_lines s)) = 0"
  by code_simp

lemma fills_routes:
  "\<forall>colour \<in> set defensive_fills. \<forall>v \<in> set (map snd routes). \<forall>r \<in> set v.
     sum_list (map (count_sub (fill_attr colour)) (route_lines r)) = 0"
  by code_simp

lemma fills_rest:
  \<open>\<forall>colour \<in> set defensive_fills.
     4 * count_sub (fill_attr colour) layer_sep + count_sub (fill_attr colour) diagram_foot +
     count_sub (fill_attr colour) ''</svg>'' = 0\<close>
  by code_simp

lemma fills_tails:
  "\<forall>colour \<in> set defensive_fills. \<forall>fill \<in> set defensive_fills.
     count_sub (fill_attr colour) (marker_tail fill) = (if fill = colour then 1 else 0)"
  by code_simp

lemma triangle_marker_split:
  \<open>triangle_marker fill x y =
     (''<polygon points="'' @ str_int x @ '','' @ str_int (y - 10) @ '' '' @
      str_int (x - 10) @ '','' @ str_int (y + 8) @ '' '' @
      str_int (x + 10) @ '','' @ str_int (y + 8)) @ marker_tail fill\<close>
  by (simp add: triangle_marker_def marker_tail_def)

lemma count_fill_triangle:
  "count_sub (fill_attr colour) (triangle_marker fill x y) =
     count_sub (fill_attr colour) (marker_tail fill)"
  unfolding triangle_marker_split
  by (rule count_sub_skip) (simp_all add: fill_attr_def letter_not_in_str_int)

lemma count_fill_group:
  assumes "colour \<in> set defensive_fills" and "fill \<in> set defensive_fills"
  shows "sum_list (map (count_sub (fill_attr colour) \<circ> (\<lambda>(x, y). triangle_marker fill x y))
           ps) =
         (if fill = colour then length ps else 0)"
proof -
  have "count_sub (fill_attr colour) (marker_tail fill) = (if fill = colour then 1 else 0)"
    using fills_tails assms by blast
  then show ?thesis
    by (induction ps) (auto simp: count_fill_triangle)
qed

lemma count_fill_defense:
  assumes "colour \<in> set defensive_fills"
  shows "count_sub (fill_attr colour) (draw_positions l) =
           (if colour = ''#dc143c'' then length (dict_get l ''DL'' []) else 0) +
           (if colour = ''#ff6347'' then length (dict_get l ''LB'' []) else 0) +
           (if colour = ''#ff4500''
            then length (dict_get l ''CB'' []) + length (dict_get l ''SLOT_CB'' []) else 0) +
           (if colour = ''#ff8c00'' then length (dict_get l ''S'' []) else 0)"
proof -
  have safe: "tag_safe (fill_attr colour)"
    using fills_tag_safe assms by blast
  have fills: "''#dc143c'' \<in> set defensive_fills" "''#ff6347'' \<in> set defensive_fills"
    "''#ff4500'' \<in> set defensive_fills" "''#ff8c00'' \<in> set defensive_fills"
    by (simp_all add: defensive_fills_def)
  show ?thesis
    unfolding count_sub_defense [OF safe] position_markers_def
    by (simp add: count_fill_group [OF assms] fills)
qed

lemma count_fill_diagram:
  assumes "colour \<in> set defensive_fills"
  shows "count_sub (fill_attr colour)
           (diagram_head @ generate_field_svg @ layer_sep @
            generate_coverage_zones_svg coverage @ layer_sep @
            generate_soft_spots_svg coverage @ layer_sep @
            generate_offensive_formation_svg formation @ layer_sep @
            draw_positions l @ diagram_foot @ route_layer concept @ ''</svg>'') =
         count_sub (fill_attr colour) (draw_positions l)"
proof -
  let ?p = "fill_attr colour"
  have safe: "tag_safe ?p"
    using fills_tag_safe assms by blast
  have "count_sub ?p diagram_head = 0"
    using fills_head assms by (simp add: count_sub_head [OF safe])
  moreover have "count_sub ?p generate_field_svg = 0"
    using fills_field assms by (simp add: count_sub_field [OF safe])
  moreover have "count_sub ?p (generate_offensive_formation_svg formation) = 0"
    using fills_offense assms by (simp add: count_sub_offense [OF safe])
  moreover have "count_sub ?p (generate_coverage_zones_svg coverage) = 0"
    unfolding count_sub_zones [OF safe]
    using fills_zones assms by (blast intro: sum_list_zero dest: dict_get_elem)
  moreover have "count_sub ?p (generate_soft_spots_svg coverage) = 0"
    unfolding count_sub_spots [OF safe]
    using fills_spots assms by (blast intro: sum_list_zero dest: dict_get_elem)
  moreover have "count_sub ?p (generate_route_svg k) = 0" for k
    unfolding count_sub_routes [OF safe]
    using fills_routes assms by (blast intro: sum_list_zero dest: dict_get_elem)
  then have "count_sub ?p (route_layer concept) = 0"
    by (cases concept) (simp_all add: route_layer_def)
  moreover have "4 * count_sub ?p layer_sep + count_sub ?p diagram_foot +
      count_sub ?p ''</svg>'' = 0"
    using fills_rest assms by blast
  ultimately show ?thesis
    unfolding count_sub_layers [OF safe] by simp
qed

lemma count_defensive_markers_diagram:
  "count_defensive_markers
     (diagram_head @ generate_field_svg @ layer_sep @
      generate_coverage_zones_svg coverage @ layer_sep @
      generate_soft_spots_svg coverage @ layer_sep @
      generate_offensive_formation_svg formation @ layer_sep @
      draw_positions l @ diagram_foot @ route_layer concept @ ''</svg>'') =
   length (dict_get l ''DL'' []) + length (dict_get l ''LB'' []) + length (dict_get l ''CB'' []) +
   length (dict_get l ''SLOT_CB'' []) + length (dict_get l ''S'' [])"
proof -
  have fills: "''#dc143c'' \<in> set defensive_fills" "''#ff6347'' \<in> set defensive_fills"
    "''#ff4500'' \<in> set defensive_fills" "''#ff8c00'' \<in> set defensive_fills"
    by (simp_all add: defensive_fills_def)
  show ?thesis
    unfolding count_defensive_markers_def
    by (simp add: defensive_fills_def fills count_fill_diagram count_fill_defense)
qed

lemma known_formation_entry:
  assumes "formation \<in> set (map fst base_positions_literal)"
  shows "dict_getitem base_positions_literal formation = Inr (base_layout formation)"
proof -
  from assms obtain l where "map_of base_positions_literal formation = Some l"
    by (auto simp: base_positions_literal_def)
  then show ?thesis
    by (simp add: dict_getitem_def base_layout_def dict_get_def)
qed

lemma count_sub_segments:
  assumes p: "tag_safe p"
  shows "count_sub p
           (diagram_head @ generate_field_svg @ layer_sep @
            generate_coverage_zones_svg coverage @ layer_sep @
            generate_soft_spots_svg coverage @ layer_sep @
            generate_offensive_formation_svg formation @ layer_sep @
            draw_positions l @ diagram_foot @ route_layer concept @ ''</svg>'') =
         sum_list (map (count_sub p) diagram_head_lines) +
         sum_list (map (count_sub p) field_lines) +
         sum_list (map (\<lambda>z. count_sub p (zone_rect z)) (dict_get zones coverage [])) +
         sum_list (map (\<lambda>s. sum_list (map (count_sub p) (spot_lines s)))
           (dict_get spots coverage [])) +
         sum_list (map (\<lambda>item. count_sub p (offensive_marker item)) offensive_positions) +
         sum_list (map (count_sub p) (position_markers l)) +
         sum_list (map (\<lambda>r. sum_list (map (count_sub p) (route_lines r)))
           (case concept of None \<Rightarrow> [] | Some c \<Rightarrow> dict_get routes c [])) +
         (4 * count_sub p layer_sep + count_sub p diagram_foot + count_sub p ''</svg>'')"
proof -
  have "count_sub p (route_layer concept) =
      sum_list (map (\<lambda>r. sum_list (map (count_sub p) (route_lines r)))
        (case concept of None \<Rightarrow> [] | Some c \<Rightarrow> dict_get routes c []))"
    by (cases concept) (simp_all add: route_layer_def count_sub_routes [OF p])
  then show ?thesis
    by (simp only: count_sub_layers [OF p] count_sub_head [OF p] count_sub_field [OF p]
          count_sub_zones [OF p] count_sub_spots [OF p] count_sub_offense [OF p]
          count_sub_defense [OF p])
qed

lemma patterns_tag_safe:
  "tag_safe overlay_pattern" "tag_safe hotspot_pattern" "tag_safe route_pattern"
  by code_simp+

lemma fills_member:
  "''#dc143c'' \<in> set defensive_fills" "''#ff6347'' \<in> set defensive_fills"
  "''#ff4500'' \<in> set defensive_fills" "''#ff8c00'' \<in> set defensive_fills"
  by (simp_all add: defensive_fills_def)

section \<open>Claims\<close>

text \<open>
  Claim C1. For every formation key of the layout table, every coverage key and every
  concept, the call returns a diagram; it is not empty, it contains the field layer, and
  the number of defensive markers in it is the number of positions of the formation's
  DL, LB, CB and SLOT_CB groups plus the number of safeties after the coverage adjustment.
\<close>
theorem known_formation_marker_count:
  assumes "formation \<in> set (map fst base_positions_literal)"
  shows "\<exists>doc safeties.
           generate_play_diagram formation coverage concept = Inr doc
         \<and> dict_getitem base_positions_literal formation = Inr (base_layout formation)
         \<and> safety_positions formation coverage = Inr safeties
         \<and> doc \<noteq> []
         \<and> sublist generate_field_svg doc
         \<and> count_defensive_markers doc =
             length (dict_get (base_layout formation) ''DL'' []) +
             length (dict_get (base_layout formation) ''LB'' []) +
             length (dict_get (base_layout formation) ''CB'' []) +
             length (dict_get (base_layout formation) ''SLOT_CB'' []) +
             length safeties"
proof -
  let ?l = "case coverage_safeties coverage of
              None \<Rightarrow> base_layout formation
            | Some v \<Rightarrow> AList.update ''S'' v (base_layout formation)"
  let ?doc = "diagram_head @ generate_field_svg @ layer_sep @
      generate_coverage_zones_svg coverage @ layer_sep @
      generate_soft_spots_svg coverage @ layer_sep @
      generate_offensive_formation_svg ''pro'' @ layer_sep @
      draw_positions ?l @ diagram_foot @ route_layer concept @ ''</svg>''"
  have doc: "generate_play_diagram formation coverage concept = Inr ?doc"
    by (rule play_diagram_layers)
  have saf: "safety_positions formation coverage = Inr (dict_get ?l ''S'' [])"
    by (simp add: safety_positions_def drawn_layout_eq)
  have groups: "dict_get ?l ''DL'' [] = dict_get (base_layout formation) ''DL'' []"
    "dict_get ?l ''LB'' [] = dict_get (base_layout formation) ''LB'' []"
    "dict_get ?l ''CB'' [] = dict_get (base_layout formation) ''CB'' []"
    "dict_get ?l ''SLOT_CB'' [] = dict_get (base_layout formation) ''SLOT_CB'' []"
    by (simp_all add: dict_get_update split: option.splits)
  have nonempty: "?doc \<noteq> []"
    by simp
  have field: "sublist generate_field_svg ?doc"
    by (rule sublist_appendI)
  have "count_defensive_markers ?doc =
      length (dict_get (base_layout formation) ''DL'' []) +
      length (dict_get (base_layout formation) ''LB'' []) +
      length (dict_get (base_layout formation) ''CB'' []) +
      length (dict_get (base_layout formation) ''SLOT_CB'' []) +
      length (dict_get ?l ''S'' [])"
    unfolding count_defensive_markers_diagram groups ..
  with doc saf nonempty field known_formation_entry [OF assms] show ?thesis
    by blast
qed

theorem known_formation_marker_count_witness:
  "\<exists>doc. generate_play_diagram ''nickel'' ''cover_3'' None = Inr doc
        \<and> safety_positions ''nickel'' ''cover_3'' = Inr [(200, 35), (250, 80)]
        \<and> count_defensive_markers doc = 11"
proof -
  have h: "''nickel'' \<in> set (map fst base_positions_literal)"
    by (simp add: base_positions_literal_def)
  have saf: "safety_positions ''nickel'' ''cover_3'' = Inr [(200, 35), (250, 80)]"
    by (simp add: safety_positions_eq coverage_safeties_def two_deep_coverages_def
          single_high_coverages_def)
  have base: "base_layout ''nickel'' = layout_nickel"
    by (simp add: base_layout_def base_positions_literal_def dict_get_def)
  from known_formation_marker_count [OF h, of "''cover_3''" None] saf show ?thesis
    by (auto simp: base layout_nickel_def dict_get_def)
qed

text \<open>
  Claim C2. The call with formation \<^verbatim>\<open>"4-3"\<close>, coverage \<^verbatim>\<open>"cover_2"\<close> and no concept
  returns a document with exactly 4 defensive-line markers, 3 linebacker markers,
  2 cornerback markers and 2 safety markers, the safeties at (120,40) and (280,40); with
  exactly 4 zone overlays, those of the table entry tagged deep, deep, flat, flat; with
  exactly 3 hotspot annotations, labelled Hole Shot, Corner, Corner; and with no route
  segment.
\<close>
theorem diagram_4_3_cover_2_contents:
  "\<exists>doc.
     generate_play_diagram ''4-3'' ''cover_2'' None = Inr doc
   \<and> doc =
       diagram_head @ generate_field_svg @ layer_sep @
       concat (map zone_rect (dict_get zones ''cover_2'' [])) @ layer_sep @
       concat (map spot_markup (dict_get spots ''cover_2'' [])) @ layer_sep @
       generate_offensive_formation_svg ''pro'' @ layer_sep @
       concat
         (map (\<lambda>(x, y). triangle_marker ''#dc143c'' x y)
            [(155, 135), (185, 135), (215, 135), (245, 135)] @
          map (\<lambda>(x, y). triangle_marker ''#ff6347'' x y) [(140, 110), (200, 105), (260, 110)] @
          map (\<lambda>(x, y). triangle_marker ''#ff4500'' x y) [(50, 100), (350, 100)] @
          map (\<lambda>(x, y). triangle_marker ''#ff8c00'' x y) [(120, 40), (280, 40)]) @
       diagram_foot @ ''</svg>''
   \<and> safety_positions ''4-3'' ''cover_2'' = Inr [(120, 40), (280, 40)]
   \<and> map zone_type (dict_get zones ''cover_2'' []) = [''deep'', ''deep'', ''flat'', ''flat'']
   \<and> map spot_label (dict_get spots ''cover_2'' []) = [''Hole Shot'', ''Corner'', ''Corner'']
   \<and> count_sub (fill_attr ''#dc143c'') doc = 4
   \<and> count_sub (fill_attr ''#ff6347'') doc = 3
   \<and> count_sub (fill_attr ''#ff4500'') doc = 2
   \<and> count_sub (fill_attr ''#ff8c00'') doc = 2
   \<and> count_sub overlay_pattern doc = 4
   \<and> count_sub hotspot_pattern doc = 3
   \<and> count_sub route_pattern doc = 0"
proof -
  let ?l = "AList.update ''S'' [(120, 40), (280, 40)] (base_layout ''4-3'')"
  let ?doc = "diagram_head @ generate_field_svg @ layer_sep @
      generate_coverage_zones_svg ''cover_2'' @ layer_sep @
      generate_soft_spots_svg ''cover_2'' @ layer_sep @
      generate_offensive_formation_svg ''pro'' @ layer_sep @
      draw_positions ?l @ diagram_foot @ route_layer None @ ''</svg>''"
  have cov: "coverage_safeties ''cover_2'' = Some [(120, 40), (280, 40)]"
    by (simp add: coverage_safeties_def two_deep_coverages_def)
  have gen: "generate_play_diagram ''4-3'' ''cover_2'' None = Inr ?doc"
    by (simp add: play_diagram_layers cov)
  have groups: "dict_get ?l ''DL'' [] = [(155, 135), (185, 135), (215, 135), (245, 135)]"
    "dict_get ?l ''LB'' [] = [(140, 110), (200, 105), (260, 110)]"
    "dict_get ?l ''CB'' [] = [(50, 100), (350, 100)]"
    "dict_get ?l ''SLOT_CB'' [] = []"
    "dict_get ?l ''S'' [] = [(120, 40), (280, 40)]"
    by (simp_all add: dict_get_update base_layout_default)
       (simp_all add: dict_get_def layout_4_3_def)
  have shape: "?doc =
      diagram_head @ generate_field_svg @ layer_sep @
      concat (map zone_rect (dict_get zones ''cover_2'' [])) @ layer_sep @
      concat (map spot_markup (dict_get spots ''cover_2'' [])) @ layer_sep @
      generate_offensive_formation_svg ''pro'' @ layer_sep @
      concat
        (map (\<lambda>(x, y). triangle_marker ''#dc143c'' x y)
           [(155, 135), (185, 135), (215, 135), (245, 135)] @
         map (\<lambda>(x, y). triangle_marker ''#ff6347'' x y) [(140, 110), (200, 105), (260, 110)] @
         map (\<lambda>(x, y). triangle_marker ''#ff4500'' x y) [(50, 100), (350, 100)] @
         map (\<lambda>(x, y). triangle_marker ''#ff8c00'' x y) [(120, 40), (280, 40)]) @
      diagram_foot @ ''</svg>''"
    unfolding zones_concat spots_concat draw_positions_concat position_markers_def groups
      route_layer_def
    by simp
  have saf: "safety_positions ''4-3'' ''cover_2'' = Inr [(120, 40), (280, 40)]"
    by (simp add: safety_positions_eq cov)
  have tags: "map zone_type (dict_get zones ''cover_2'' []) = [''deep'', ''deep'', ''flat'', ''flat'']"
    by (simp add: dict_get_def zones_def mk_zone_def)
  have labels: "map spot_label (dict_get spots ''cover_2'' []) = [''Hole Shot'', ''Corner'', ''Corner'']"
    by (simp add: dict_get_def spots_def mk_spot_def)
  have dl: "count_sub (fill_attr ''#dc143c'') ?doc = 4"
    and lb: "count_sub (fill_attr ''#ff6347'') ?doc = 3"
    and cb: "count_sub (fill_attr ''#ff4500'') ?doc = 2"
    and s: "count_sub (fill_attr ''#ff8c00'') ?doc = 2"
    by (simp_all add: count_fill_diagram count_fill_defense fills_member groups)
  have overlays: "count_sub overlay_pattern ?doc = 4"
    unfolding count_sub_segments [OF patterns_tag_safe(1)] by code_simp
  have hotspots: "count_sub hotspot_pattern ?doc = 3"
    unfolding count_sub_segments [OF patterns_tag_safe(2)] by code_simp
  have no_routes: "count_sub route_pattern ?doc = 0"
    unfolding count_sub_segments [OF patterns_tag_safe(3)] by code_simp
  from gen shape saf tags labels dl lb cb s overlays hotspots no_routes show ?thesis
    by (intro exI [of _ ?doc] conjI)
qed

text \<open>
  Claim C3. The call with formation \<^verbatim>\<open>"dime"\<close>, coverage \<^verbatim>\<open>"cover_0"\<close> and concept
  \<^verbatim>\<open>"mesh"\<close> returns a document whose two safety markers are at (180,95) and (220,95),
  with no zone overlay, with exactly one hotspot annotation, labelled
  \<^verbatim>\<open>Deep - no help!\<close>, and with exactly 2 route segments, the lines of the two routes of
  the mesh concept, both of type cross.
\<close>
theorem diagram_dime_cover_0_mesh_contents:
  "\<exists>doc.
     generate_play_diagram ''dime'' ''cover_0'' (Some ''mesh'') = Inr doc
   \<and> doc =
       diagram_head @ generate_field_svg @ layer_sep @
       concat (map zone_rect (dict_get zones ''cover_0'' [])) @ layer_sep @
       concat (map spot_markup (dict_get spots ''cover_0'' [])) @ layer_sep @
       generate_offensive_formation_svg ''pro'' @ layer_sep @
       concat
         (map (\<lambda>(x, y). triangle_marker ''#dc143c'' x y)
            [(155, 135), (185, 135), (215, 135), (245, 135)] @
          map (\<lambda>(x, y). triangle_marker ''#ff6347'' x y) [(200, 105)] @
          map (\<lambda>(x, y). triangle_marker ''#ff4500'' x y) [(50, 100), (350, 100)] @
          map (\<lambda>(x, y). triangle_marker ''#ff4500'' x y) [(100, 105), (300, 105)] @
          map (\<lambda>(x, y). triangle_marker ''#ff8c00'' x y) [(180, 95), (220, 95)]) @
       diagram_foot @ concat (map route_line (dict_get routes ''mesh'' [])) @ ''</svg>''
   \<and> safety_positions ''dime'' ''cover_0'' = Inr [(180, 95), (220, 95)]
   \<and> count_sub (fill_attr ''#ff8c00'') doc = 2
   \<and> dict_get zones ''cover_0'' [] = []
   \<and> count_sub overlay_pattern doc = 0
   \<and> map spot_label (dict_get spots ''cover_0'' []) = [''Deep - no help!'']
   \<and> count_sub hotspot_pattern doc = 1
   \<and> map route_type (dict_get routes ''mesh'' []) = [''cross'', ''cross'']
   \<and> count_sub route_pattern doc = 2"
proof -
  let ?l = "AList.update ''S'' [(180, 95), (220, 95)] (base_layout ''dime'')"
  let ?doc = "diagram_head @ generate_field_svg @ layer_sep @
      generate_coverage_zones_svg ''cover_0'' @ layer_sep @
      generate_soft_spots_svg ''cover_0'' @ layer_sep @
      generate_offensive_formation_svg ''pro'' @ layer_sep @
      draw_positions ?l @ diagram_foot @ route_layer (Some ''mesh'') @ ''</svg>''"
  have cov: "coverage_safeties ''cover_0'' = Some [(180, 95), (220, 95)]"
    by (simp add: coverage_safeties_def two_deep_coverages_def single_high_coverages_def)
  have gen: "generate_play_diagram ''dime'' ''cover_0'' (Some ''mesh'') = Inr ?doc"
    by (simp add: play_diagram_layers cov)
  have base: "base_layout ''dime'' = layout_dime"
    by (simp add: base_layout_def base_positions_literal_def dict_get_def)
  have groups: "dict_get ?l ''DL'' [] = [(155, 135), (185, 135), (215, 135), (245, 135)]"
    "dict_get ?l ''LB'' [] = [(200, 105)]"
    "dict_get ?l ''CB'' [] = [(50, 100), (350, 100)]"
    "dict_get ?l ''SLOT_CB'' [] = [(100, 105), (300, 105)]"
    "dict_get ?l ''S'' [] = [(180, 95), (220, 95)]"
    by (simp_all add: dict_get_update base)
       (simp_all add: dict_get_def layout_dime_def)
  have shape: "?doc =
      diagram_head @ generate_field_svg @ layer_sep @
      concat (map zone_rect (dict_get zones ''cover_0'' [])) @ layer_sep @
      concat (map spot_markup (dict_get spots ''cover_0'' [])) @ layer_sep @
      generate_offensive_formation_svg ''pro'' @ layer_sep @
      concat
        (map (\<lambda>(x, y). triangle_marker ''#dc143c'' x y)
           [(155, 135), (185, 135), (215, 135), (245, 135)] @
         map (\<lambda>(x, y). triangle_marker ''#ff6347'' x y) [(200, 105)] @
         map (\<lambda>(x, y). triangle_marker ''#ff4500'' x y) [(50, 100), (350, 100)] @
         map (\<lambda>(x, y). triangle_marker ''#ff4500'' x y) [(100, 105), (300, 105)] @
         map (\<lambda>(x, y). triangle_marker ''#ff8c00'' x y) [(180, 95), (220, 95)]) @
      diagram_foot @ concat (map route_line (dict_get routes ''mesh'' [])) @ ''</svg>''"
    unfolding zones_concat spots_concat draw_positions_concat position_markers_def groups
      route_layer_def routes_concat
    by simp
  have saf: "safety_positions ''dime'' ''cover_0'' = Inr [(180, 95), (220, 95)]"
    by (simp add: safety_positions_eq cov)
  have s: "count_sub (fill_attr ''#ff8c00'') ?doc = 2"
    by (simp add: count_fill_diagram count_fill_defense fills_member groups)
  have no_zones: "dict_get zones ''cover_0'' [] = []"
    by (simp add: dict_get_def zones_def)
  have labels: "map spot_label (dict_get spots ''cover_0'' []) = [''Deep - no help!'']"
    by (simp add: dict_get_def spots_def mk_spot_def)
  have types: "map route_type (dict_get routes ''mesh'' []) = [''cross'', ''cross'']"
    by (simp add: dict_get_def routes_def mk_route_def)
  have overlays: "count_sub overlay_pattern ?doc = 0"
    unfolding count_sub_segments [OF patterns_tag_safe(1)] by code_simp
  have hotspots: "count_sub hotspot_pattern ?doc = 1"
    unfolding count_sub_segments [OF patterns_tag_safe(2)] by code_simp
  have two_routes: "count_sub route_pattern ?doc = 2"
    unfolding count_sub_segments [OF patterns_tag_safe(3)] by code_simp
  from gen shape saf s no_zones overlays labels hotspots types two_routes show ?thesis
    by (intro exI [of _ ?doc] conjI)
qed

text \<open>
  Claim C9. The offensive formation renderer is a constant function: whatever its
  formation argument, it returns the same markup, one marker for each of the eleven
  positions of the fixed pro layout.
\<close>

theorem offensive_formation_constant:
  "generate_offensive_formation_svg formation = generate_offensive_formation_svg other
   \<and> generate_offensive_formation_svg formation = concat (map offensive_marker offensive_positions)
   \<and> length offensive_positions = 11"
  by (simp add: generate_offensive_formation_svg_def foldl_append_concat offensive_positions_def)

text \<open>
  Claim C4. For a formation key that is not in the layout table, and any coverage and
  concept, the diagram equals the diagram of the default formation \<^verbatim>\<open>"4-3"\<close> with the same
  coverage and concept, and neither the lookup nor the composer fails.
\<close>

theorem unknown_formation_default:
  assumes "formation \<notin> set (map fst base_positions_literal)"
  shows "generate_play_diagram formation coverage concept =
           generate_play_diagram ''4-3'' coverage concept
         \<and> (\<exists>doc. generate_play_diagram formation coverage concept = Inr doc)
         \<and> (\<exists>st. lookup_and_adjust formation coverage = Inr st)"
proof -
  have same: "base_layout formation = base_layout ''4-3''"
    by (simp only: base_layout_unknown [OF assms] base_layout_default)
  show ?thesis
    unfolding play_diagram_layers same by (simp add: lookup_and_adjust_eq Let_def)
qed

theorem unknown_formation_default_witness:
  "''46'' \<notin> set (map fst base_positions_literal)
   \<and> generate_play_diagram ''46'' ''cover_3'' None = generate_play_diagram ''4-3'' ''cover_3'' None
   \<and> (\<exists>doc. generate_play_diagram ''46'' ''cover_3'' None = Inr doc)"
proof -
  have h: "''46'' \<notin> set (map fst base_positions_literal)"
    by (simp add: base_positions_literal_def)
  from unknown_formation_default [OF h, of "''cover_3''" None] h show ?thesis
    by blast
qed

text \<open>
  Claim C6. For a concept key that is not in the routes table the route layer is empty,
  and the whole output equals the output of the call without a concept.
\<close>

theorem unknown_concept_no_routes:
  assumes "concept \<notin> set (map fst routes)"
  shows "generate_route_svg concept = []
         \<and> generate_play_diagram formation coverage (Some concept) =
             generate_play_diagram formation coverage None"
proof -
  from assms have "generate_route_svg concept = []"
    by (simp add: generate_route_svg_def dict_get_absent)
  then show ?thesis
    by (simp add: play_diagram_layers route_layer_def)
qed

theorem unknown_concept_no_routes_witness:
  "''wheel'' \<notin> set (map fst routes)
   \<and> generate_route_svg ''wheel'' = []
   \<and> generate_play_diagram ''nickel'' ''cover_1'' (Some ''wheel'') =
       generate_play_diagram ''nickel'' ''cover_1'' None"
proof -
  have h: "''wheel'' \<notin> set (map fst routes)"
    by (simp add: routes_def)
  from unknown_concept_no_routes [OF h, of "''nickel''" "''cover_1''"] h show ?thesis
    by blast
qed

text \<open>
  Claim C7. For every formation, coverage and optional concept, the output is the
  concatenation, in this order, of the document head, the field background, the zone
  overlays, the hotspot annotations, the offensive markers, the defensive markers and,
  for a supplied concept, its route segments, then the closing tag; the layers are
  separated by fixed whitespace.
\<close>
theorem layers_in_fixed_order:
  "\<exists>defense.
     generate_defensive_formation_svg formation coverage = Inr defense \<and>
     generate_play_diagram formation coverage concept =
       Inr (diagram_head @ generate_field_svg @ layer_sep @
            generate_coverage_zones_svg coverage @ layer_sep @
            generate_soft_spots_svg coverage @ layer_sep @
            generate_offensive_formation_svg ''pro'' @ layer_sep @
            defense @ diagram_foot @
            (case concept of None \<Rightarrow> [] | Some c \<Rightarrow> generate_route_svg c) @ ''</svg>'')"
  by (simp add: play_diagram_layers generate_defensive_formation_svg_eq drawn_layout_eq
        route_layer_def)

text \<open>
  Claim C5. For a coverage key that is in none of the zone table, the hotspot table and
  the key lists of the safety adjustment, the zone layer and the hotspot layer of the
  diagram are empty and the safeties drawn are the unadjusted safeties of the base layout
  of the formation.
\<close>
theorem unknown_coverage_sparse:
  assumes "coverage \<notin> set (map fst zones)" and "coverage \<notin> set (map fst spots)"
    and "coverage \<notin> set two_deep_coverages" and "coverage \<notin> set single_high_coverages"
    and "coverage \<noteq> ''cover_0''"
  shows "generate_coverage_zones_svg coverage = []
         \<and> generate_soft_spots_svg coverage = []
         \<and> safety_positions formation coverage = Inr (dict_get (base_layout formation) ''S'' [])
         \<and> generate_play_diagram formation coverage concept =
             Inr (diagram_head @ generate_field_svg @ layer_sep @ [] @ layer_sep @ [] @
                  layer_sep @ generate_offensive_formation_svg ''pro'' @ layer_sep @
                  draw_positions (base_layout formation) @ diagram_foot @
                  route_layer concept @ ''</svg>'')"
proof -
  have z: "generate_coverage_zones_svg coverage = []"
    using assms(1) by (simp add: generate_coverage_zones_svg_def dict_get_absent)
  have s: "generate_soft_spots_svg coverage = []"
    using assms(2) by (simp add: generate_soft_spots_svg_def dict_get_absent)
  have c: "coverage_safeties coverage = None"
    using assms(3-5) by (simp add: coverage_safeties_def)
  show ?thesis
    by (simp add: z s c play_diagram_layers safety_positions_eq)
qed

theorem unknown_coverage_sparse_witness:
  "generate_coverage_zones_svg ''prevent'' = []
   \<and> generate_soft_spots_svg ''prevent'' = []
   \<and> safety_positions ''nickel'' ''prevent'' = Inr [(150, 50), (250, 50)]"
proof -
  have h: "''prevent'' \<notin> set (map fst zones)" "''prevent'' \<notin> set (map fst spots)"
    "''prevent'' \<notin> set two_deep_coverages" "''prevent'' \<notin> set single_high_coverages"
    "''prevent'' \<noteq> ''cover_0''"
    by (simp_all add: zones_def spots_def two_deep_coverages_def single_high_coverages_def)
  have "dict_get (base_layout ''nickel'') ''S'' [] = [(150, 50), (250, 50)]"
    by (simp add: base_layout_def base_positions_literal_def dict_get_def layout_nickel_def)
  with unknown_coverage_sparse [OF h, of "''nickel''" None] show ?thesis
    by simp
qed

text \<open>
  Claim C10. For a coverage key of one of the three adjustment groups (two deep, single
  high, cover 0), the safeties drawn are the value the adjustment assigns for that
  coverage, the same for any two formation keys, known or unknown, although the base
  layouts of nickel and dime place their safeties elsewhere than 4-3 does.
\<close>
theorem safeties_fixed_by_coverage:
  assumes "coverage \<in> set two_deep_coverages \<union> set single_high_coverages \<union> {''cover_0''}"
  shows "safety_positions formation coverage = safety_positions other coverage
         \<and> (\<exists>v. coverage_safeties coverage = Some v \<and> safety_positions formation coverage = Inr v)
         \<and> dict_get (base_layout ''nickel'') ''S'' [] \<noteq> dict_get (base_layout ''4-3'') ''S'' []
         \<and> dict_get (base_layout ''dime'') ''S'' [] \<noteq> dict_get (base_layout ''4-3'') ''S'' []"
proof -
  from assms obtain v where "coverage_safeties coverage = Some v"
    by (auto simp: coverage_safeties_def two_deep_coverages_def single_high_coverages_def)
  then have "safety_positions formation coverage = safety_positions other coverage
         \<and> (\<exists>v. coverage_safeties coverage = Some v \<and> safety_positions formation coverage = Inr v)"
    by (simp add: safety_positions_eq)
  moreover have "dict_get (base_layout ''nickel'') ''S'' [] \<noteq> dict_get (base_layout ''4-3'') ''S'' []"
    "dict_get (base_layout ''dime'') ''S'' [] \<noteq> dict_get (base_layout ''4-3'') ''S'' []"
    by (simp_all add: base_layout_def base_positions_literal_def dict_get_def layout_nickel_def
          layout_dime_def layout_4_3_def)
  ultimately show ?thesis
    by blast
qed

theorem safeties_fixed_by_coverage_witness:
  "safety_positions ''nickel'' ''cover_2'' = safety_positions ''46'' ''cover_2''
   \<and> safety_positions ''nickel'' ''cover_2'' = Inr [(120, 40), (280, 40)]"
proof -
  have h: "''cover_2'' \<in> set two_deep_coverages \<union> set single_high_coverages \<union> {''cover_0''}"
    by (simp add: two_deep_coverages_def)
  have "coverage_safeties ''cover_2'' = Some [(120, 40), (280, 40)]"
    by (simp add: coverage_safeties_def two_deep_coverages_def)
  with safeties_fixed_by_coverage [OF h, of "''nickel''" "''46''"] show ?thesis
    by auto
qed

text \<open>
  Claim C8, as stated: the adjustment changes only the safeties and does not mutate the
  layout table. On the code the second half fails: \<^verbatim>\<open>positions\<close> is the dictionary object
  held by \<^verbatim>\<open>base_positions\<close>, and \<^verbatim>\<open>positions["S"] = ...\<close> writes into it. After the
  adjustment of a call with \<^verbatim>\<open>"4-3"\<close> and \<^verbatim>\<open>"cover_2"\<close> the table's entry for
  \<^verbatim>\<open>"4-3"\<close> holds the two-deep safeties, not those of the literal.
\<close>
theorem adjustment_mutates_table_counterexample:
  "table_after ''4-3'' ''cover_2'' =
     Inr [(''4-3'',
            [(''DL'', [(155, 135), (185, 135), (215, 135), (245, 135)]),
             (''LB'', [(140, 110), (200, 105), (260, 110)]),
             (''CB'', [(50, 100), (350, 100)]),
             (''S'', [(120, 40), (280, 40)])]),
          (''3-4'', layout_3_4), (''nickel'', layout_nickel), (''dime'', layout_dime)]
   \<and> table_after ''4-3'' ''cover_2'' \<noteq> Inr base_positions_literal"
  by (simp add: table_after_eq coverage_safeties_def two_deep_coverages_def resolved_key_def
        base_layout_def base_positions_literal_def dict_get_def layout_4_3_def)

text \<open>
  Claim C8, amended. For every formation and coverage key the DL, LB, CB and SLOT_CB
  sequences the markers are drawn from equal those of the base layout. Every call builds
  its table anew from the literal; the adjustment writes the adjusted safeties in place
  into the looked-up layout of that table, and changes nothing else in it: for a
  recognised coverage the table then differs from the literal exactly in the safeties of
  the resolved formation, for any other coverage it equals the literal.
\<close>

theorem adjustment_touches_safeties_only:
  "(\<exists>l. drawn_layout formation coverage = Inr l
        \<and> dict_get l ''DL'' [] = dict_get (base_layout formation) ''DL'' []
        \<and> dict_get l ''LB'' [] = dict_get (base_layout formation) ''LB'' []
        \<and> dict_get l ''CB'' [] = dict_get (base_layout formation) ''CB'' []
        \<and> dict_get l ''SLOT_CB'' [] = dict_get (base_layout formation) ''SLOT_CB'' [])
   \<and> (case alloc_table [] base_positions_literal of (h, d) \<Rightarrow> table_view h d) =
       base_positions_literal
   \<and> table_after formation coverage =
       Inr (case coverage_safeties coverage of
              None \<Rightarrow> base_positions_literal
            | Some v \<Rightarrow>
                AList.update (resolved_key formation)
                  (AList.update ''S'' v (base_layout formation)) base_positions_literal)"
proof -
  have fresh: "(case alloc_table [] base_positions_literal of (h, d) \<Rightarrow> table_view h d) =
      base_positions_literal"
    unfolding alloc_table_literal by (simp add: table_view_def base_positions_literal_def)
  show ?thesis
    unfolding fresh table_after_eq drawn_layout_eq
    by (simp add: dict_get_update split: option.splits)
qed

end
